theory Spec2Isabelle
  imports Main
begin

section \<open>Python string operations used by the application\<close>

text \<open>
  Utterances, form fields and messages are Python \<open>str\<close> values. They are modelled as
  \<open>string\<close>, each \<open>char\<close> being one code point from U+0000 to U+00FF; text with code
  points beyond that range is outside the model. On this range \<open>str.lower\<close> maps A to Z
  and the capitals U+00C0 to U+00DE other than the multiplication sign U+00D7 to the
  code point 32 above, and \<open>str.isspace\<close> holds of 9 to 13, 28 to 32, U+0085 and U+00A0.
\<close>

datatype exn =
    AttributeError string
  | KeyError string
  | TypeError string
  | ValueError string
  | IndexError string
  | TclError string
  | JSONDecodeError string
  | ServiceError string

fun str_exn :: "exn \<Rightarrow> string" where
  "str_exn (AttributeError m) = m"
| "str_exn (KeyError m) = m"
| "str_exn (TypeError m) = m"
| "str_exn (ValueError m) = m"
| "str_exn (IndexError m) = m"
| "str_exn (TclError m) = m"
| "str_exn (JSONDecodeError m) = m"
| "str_exn (ServiceError m) = m"

definition isspace :: "char \<Rightarrow> bool" where
  "isspace c =
     (let n = (of_char c :: nat)
      in (9 \<le> n \<and> n \<le> 13) \<or> (28 \<le> n \<and> n \<le> 32) \<or> n = 133 \<or> n = 160)"

definition py_strip :: "string \<Rightarrow> string" where
  "py_strip s = rev (dropWhile isspace (rev (dropWhile isspace s)))"

definition lower_char :: "char \<Rightarrow> char" where
  "lower_char c =
     (case map_of
        (zip (''ABCDEFGHIJKLMNOPQRSTUVWXYZ'' @
          [
           CHR 0xC0, CHR 0xC1, CHR 0xC2, CHR 0xC3, CHR 0xC4, CHR 0xC5, CHR 0xC6, CHR 0xC7,
           CHR 0xC8, CHR 0xC9, CHR 0xCA, CHR 0xCB, CHR 0xCC, CHR 0xCD, CHR 0xCE, CHR 0xCF,
           CHR 0xD0, CHR 0xD1, CHR 0xD2, CHR 0xD3, CHR 0xD4, CHR 0xD5, CHR 0xD6, CHR 0xD8,
           CHR 0xD9, CHR 0xDA, CHR 0xDB, CHR 0xDC, CHR 0xDD, CHR 0xDE])
           (''abcdefghijklmnopqrstuvwxyz'' @
          [
           CHR 0xE0, CHR 0xE1, CHR 0xE2, CHR 0xE3, CHR 0xE4, CHR 0xE5, CHR 0xE6, CHR 0xE7,
           CHR 0xE8, CHR 0xE9, CHR 0xEA, CHR 0xEB, CHR 0xEC, CHR 0xED, CHR 0xEE, CHR 0xEF,
           CHR 0xF0, CHR 0xF1, CHR 0xF2, CHR 0xF3, CHR 0xF4, CHR 0xF5, CHR 0xF6, CHR 0xF8,
           CHR 0xF9, CHR 0xFA, CHR 0xFB, CHR 0xFC, CHR 0xFD, CHR 0xFE])) c of
        Some d \<Rightarrow> d
      | None \<Rightarrow> c)"

definition py_lower :: "string \<Rightarrow> string" where
  "py_lower s = map lower_char s"

definition startswith :: "string \<Rightarrow> string \<Rightarrow> bool" where
  "startswith s p = (take (length p) s = p)"

text \<open>\<open>contains s sub\<close> is Python's \<open>sub in s\<close>.\<close>

fun contains :: "string \<Rightarrow> string \<Rightarrow> bool" where
  "contains [] sub = (sub = [])"
| "contains (c # cs) sub = (startswith (c # cs) sub \<or> contains cs sub)"

text \<open>
  \<open>str.split(sep)\<close> cuts at the non-overlapping occurrences of \<open>sep\<close>, scanning from the
  left, and raises \<open>ValueError\<close> on an empty separator. \<open>split_from c sep acc s\<close> scans
  \<open>s\<close> for the separator \<open>c # sep\<close>, with \<open>acc\<close> the reversed piece read so far.
\<close>

fun split_from :: "char \<Rightarrow> string \<Rightarrow> string \<Rightarrow> string \<Rightarrow> string list" where
  "split_from c sep acc [] = [rev acc]"
| "split_from c sep acc (x # xs) =
     (if x = c \<and> startswith xs sep
      then rev acc # split_from c sep [] (drop (length sep) xs)
      else split_from c sep (x # acc) xs)"

definition py_split :: "string \<Rightarrow> string \<Rightarrow> exn + string list" where
  "py_split s sep =
     (case sep of
        [] \<Rightarrow> Inl (ValueError ''empty separator'')
      | c # cs \<Rightarrow> Inr (split_from c cs [] s))"

text \<open>\<open>py_join sep xs\<close> is \<open>sep.join(xs)\<close>.\<close>

fun py_join :: "string \<Rightarrow> string list \<Rightarrow> string" where
  "py_join sep [] = []"
| "py_join sep [x] = x"
| "py_join sep (x # y # ys) = x @ sep @ py_join sep (y # ys)"


section \<open>Data model\<close>

text \<open>
  The language service answers with a JSON object. A key of that object is missing, holds
  \<open>null\<close>, or holds a value; \<open>dict_get\<close> is \<open>d.get(k)\<close> and \<open>get_default\<close> is
  \<open>d.get(k, default)\<close>, which returns \<open>None\<close> for a key that is present and null.
  The request sent to the service asks for \<open>intent\<close>, \<open>recipient\<close>, \<open>subject\<close>, \<open>body\<close> and
  \<open>explanation\<close> as strings or null and for \<open>continue_previous\<close> as a boolean.
\<close>

datatype 'a field = Absent | Null | Val 'a

record analysis =
  a_intent :: "string field"
  a_recipient :: "string field"
  a_subject :: "string field"
  a_body :: "string field"
  a_continue_previous :: "bool field"
  a_explanation :: "string field"

fun dict_get :: "'a field \<Rightarrow> 'a option" where
  "dict_get (Val v) = Some v"
| "dict_get Null = None"
| "dict_get Absent = None"

fun get_default :: "'a field \<Rightarrow> 'a \<Rightarrow> 'a option" where
  "get_default (Val v) d = Some v"
| "get_default Null d = None"
| "get_default Absent d = Some d"

text \<open>Truth value of \<open>None\<close> or a string, and of \<open>None\<close> or a boolean.\<close>

fun truthy :: "string option \<Rightarrow> bool" where
  "truthy None = False"
| "truthy (Some s) = (s \<noteq> [])"

fun truthy_bool :: "bool option \<Rightarrow> bool" where
  "truthy_bool None = False"
| "truthy_bool (Some b) = b"

text \<open>
  What \<open>analyze_command\<close> handed back to \<open>process_voice_command\<close>: \<open>NoResult\<close> is \<open>None\<close>
  or any falsy value, \<open>NonDict ty\<close> a truthy value of Python type \<open>ty\<close> that is not a dict,
  \<open>Dict a\<close> a non-empty dict; the field \<open>a_k\<close> of \<open>a\<close> is its key \<open>k\<close>.
\<close>

datatype analysis_result = NoResult | NonDict string | Dict analysis

text \<open>The dict \<open>current_context\<close>.\<close>

record conversation =
  ctx_recipient :: "string option"
  ctx_subject :: "string option"
  partial_body :: "string option"
  in_conversation :: bool
  last_intent :: "string option"

datatype dialog =
    ShowError string string
  | ShowInfo string string
  | AskYesNo string string
  | AddContactDialog

text \<open>
  The application object: the conversation context, the contact dict, the three form
  widgets (\<open>message_text\<close> is the content of the text widget without the newline that Tk
  keeps at its end), the status line, and what has been written to the log, spoken, shown
  in dialogs and handed to the mail sender so far.
\<close>

record app =
  current_context :: conversation
  contacts :: "string \<rightharpoonup> string"
  recipient_var :: string
  subject_var :: string
  message_text :: string
  status_text :: string
  log_text :: "string list"
  spoken :: "string list"
  dialogs :: "dialog list"
  send_calls :: "(string \<times> string \<times> string) list"

text \<open>
  What the world answers during one turn: the user's answer to the confirmation dialog,
  the outcome of the SMTP session, and the text of the error Tcl reports.
\<close>

datatype smtp_outcome = Delivered | AuthenticationError | OtherError string

record env =
  answer_yes :: bool
  smtp :: smtp_outcome
  tcl_message :: string

definition sq :: string where
  "sq = [CHR 0x27]"

definition dq :: string where
  "dq = [CHR 0x22]"

section \<open>core/email_sender.py\<close>

definition alnum :: "char \<Rightarrow> bool" where
  "alnum c = (c \<in> set ''abcdefghijklmnopqrstuvwxyzABCDEFGHIJKLMNOPQRSTUVWXYZ0123456789'')"

definition alpha :: "char \<Rightarrow> bool" where
  "alpha c = (c \<in> set ''abcdefghijklmnopqrstuvwxyzABCDEFGHIJKLMNOPQRSTUVWXYZ'')"

text \<open>
  \<open>re.match\<close> of \<open>^[a-zA-Z0-9._%+-]+@[a-zA-Z0-9.-]+\.[a-zA-Z]{2,}$\<close>. Neither class
  holds the at sign, so the first part is what precedes the first at sign; the last part has
  no dot, so it is what follows the last dot. \<open>$\<close> also matches before one final newline.
\<close>

definition is_valid_email :: "string \<Rightarrow> bool" where
  "is_valid_email email =
     (let s = (if email \<noteq> [] \<and> last email = CHR 0x0A then butlast email else email);
          name = takeWhile (\<lambda>c. c \<noteq> CHR ''@'') s;
          rest = drop (length name) s
      in name \<noteq> [] \<and> list_all (\<lambda>c. alnum c \<or> c \<in> set ''._%+-'') name \<and>
         (case rest of
            [] \<Rightarrow> False
          | _ # domain \<Rightarrow>
              (let tld = rev (takeWhile (\<lambda>c. c \<noteq> CHR ''.'') (rev domain));
                   host = take (length domain - length tld - 1) domain
               in length tld < length domain \<and> host \<noteq> [] \<and>
                  list_all (\<lambda>c. alnum c \<or> c \<in> set ''.-'') host \<and>
                  2 \<le> length tld \<and> list_all alpha tld)))"

text \<open>\<open>EmailSender.send_email\<close>: the pair it returns for each outcome of the SMTP session.\<close>

fun email_sender_send_email :: "smtp_outcome \<Rightarrow> bool \<times> string" where
  "email_sender_send_email Delivered = (True, ''Email sent successfully!'')"
| "email_sender_send_email AuthenticationError =
     (False, ''Gmail login failed. Check your app password.'')"
| "email_sender_send_email (OtherError e) = (False, ''Sending failed: '' @ e)"


section \<open>ui/app.py: state and utility methods\<close>

text \<open>The context that \<open>_init_application_state\<close> and \<open>_reset_conversation_context\<close> assign.\<close>

definition empty_context :: conversation where
  "empty_context =
     \<lparr>ctx_recipient = None, ctx_subject = None, partial_body = None,
      in_conversation = False, last_intent = None\<rparr>"

definition init_application_state :: "(string \<rightharpoonup> string) \<Rightarrow> app" where
  "init_application_state cs =
     \<lparr>current_context = empty_context, contacts = cs, recipient_var = [], subject_var = [],
      message_text = [], status_text = ''Ready'', log_text = [], spoken = [], dialogs = [],
      send_calls = []\<rparr>"

definition reset_conversation_context :: "app \<Rightarrow> app" where
  "reset_conversation_context s = s\<lparr>current_context := empty_context\<rparr>"

definition log :: "string \<Rightarrow> app \<Rightarrow> app" where
  "log message s = s\<lparr>log_text := log_text s @ [message]\<rparr>"

definition speak :: "string \<Rightarrow> app \<Rightarrow> app" where
  "speak t s = s\<lparr>spoken := spoken s @ [t]\<rparr>"

definition set_status :: "string \<Rightarrow> app \<Rightarrow> app" where
  "set_status t s = s\<lparr>status_text := t\<rparr>"

definition show_dialog :: "dialog \<Rightarrow> app \<Rightarrow> app" where
  "show_dialog d s = s\<lparr>dialogs := dialogs s @ [d]\<rparr>"

text \<open>\<open>message_text.get(1.0, tk.END)\<close>: the content and the final newline of the widget.\<close>

definition text_get :: "app \<Rightarrow> string" where
  "text_get s = message_text s @ [CHR 0x0A]"

definition clear_form :: "app \<Rightarrow> app" where
  "clear_form s = log ''Form cleared'' (s\<lparr>recipient_var := [], subject_var := [], message_text := []\<rparr>)"

text \<open>One entry of \<open>context_parts\<close>: appended when the context value is truthy.\<close>

fun context_part :: "string \<Rightarrow> string option \<Rightarrow> string list" where
  "context_part label None = []"
| "context_part label (Some v) = (if v \<noteq> [] then [label @ v] else [])"

definition build_conversation_context :: "app \<Rightarrow> string" where
  "build_conversation_context s =
     (let c = current_context s in
      if \<not> in_conversation c then []
      else
        (let context_parts =
               context_part ''Recipient: '' (ctx_recipient c) @
               context_part ''Subject: '' (ctx_subject c) @
               context_part ''Previous message content: '' (partial_body c)
         in if context_parts \<noteq> []
            then ''Current email draft: '' @ py_join ''; '' context_parts @ ''. ''
            else []))"

definition provide_next_step_guidance :: "app \<Rightarrow> app" where
  "provide_next_step_guidance s =
     (let missing =
            (if recipient_var s = [] then [''recipient''] else []) @
            (if subject_var s = [] then [''subject''] else []) @
            (if py_strip (text_get s) = [] then [''message body''] else [])
      in if missing \<noteq> []
         then (let guidance = ''I need your '' @ py_join '', '' missing
               in speak guidance (set_status guidance s))
         else speak ''Your email is ready. Say send it when ready.''
                (set_status (''Your email is ready to send. Say '' @ sq @ ''send it'' @ sq @ '' when ready.'') s))"

section \<open>ui/app.py: sending\<close>

definition validate_email_form :: "string \<Rightarrow> string \<Rightarrow> app \<Rightarrow> bool \<times> app" where
  "validate_email_form recipient body s =
     (if recipient = [] then (False, show_dialog (ShowError ''Error'' ''Recipient is required'') s)
      else
        (let r =
           (if \<not> is_valid_email recipient
            then (let invalid =
                        (False, show_dialog (ShowError ''Error'' (''Invalid email address: '' @ recipient)) s)
                  in case contacts s (py_lower recipient) of
                       None \<Rightarrow> invalid
                     | Some email \<Rightarrow>
                         if email = [] then invalid else (True, s\<lparr>recipient_var := email\<rparr>))
            else (True, s))
         in if \<not> fst r then r
            else if body = []
            then (False, show_dialog (ShowError ''Error'' ''Email body cannot be empty'') (snd r))
            else (True, snd r)))"

definition confirm_send_email :: "env \<Rightarrow> string \<Rightarrow> string \<Rightarrow> string \<Rightarrow> app \<Rightarrow> bool \<times> app" where
  "confirm_send_email e recipient subject body s =
     (let preview = take 50 body @ (if length body > 50 then ''...'' else [])
      in (answer_yes e,
          show_dialog
            (AskYesNo ''Confirm''
               (''Send email to '' @ recipient @ ''?'' @ [CHR 0x0A, CHR 0x0A] @ ''Subject: '' @ subject @
                [CHR 0x0A, CHR 0x0A] @ ''Message: '' @ preview)) s))"

definition send_email :: "env \<Rightarrow> app \<Rightarrow> app" where
  "send_email e s =
     (let recipient = py_strip (recipient_var s);
          subject = py_strip (subject_var s);
          body = py_strip (text_get s);
          v = validate_email_form recipient body s
      in if \<not> fst v then snd v
         else
           (let c = confirm_send_email e recipient subject body (snd v)
            in if \<not> fst c then snd c
               else
                 (let s1 = (snd c)\<lparr>send_calls := send_calls (snd c) @ [(recipient, subject, body)]\<rparr>;
                      r = email_sender_send_email (smtp e)
                  in if fst r
                     then clear_form
                            (speak ''Email sent successfully''
                               (log (''Email sent to '' @ recipient)
                                  (show_dialog (ShowInfo ''Success'' ''Email sent successfully!'') s1)))
                     else log (''Failed to send email: '' @ snd r)
                            (show_dialog (ShowError ''Error'' (''Failed to send email: '' @ snd r)) s1))))"


section \<open>ui/app.py: intent handlers\<close>

text \<open>
  A handler returns the application after its last completed statement, with the
  exception it raised there, if any.
\<close>

type_synonym outcome = "exn option \<times> app"

definition handle_compose_intent :: "analysis \<Rightarrow> app \<Rightarrow> app" where
  "handle_compose_intent a s =
     (let s1 =
            (case dict_get (a_recipient a) of
               None \<Rightarrow> s
             | Some r \<Rightarrow>
                 if r = [] then s
                 else
                   (let recipient_email =
                          (case contacts s (py_lower r) of None \<Rightarrow> r | Some email \<Rightarrow> email)
                    in log (''Setting recipient: '' @ recipient_email)
                         (s\<lparr>current_context := (current_context s)\<lparr>ctx_recipient := Some r\<rparr>,
                            recipient_var := recipient_email\<rparr>)));
          s2 =
            (case dict_get (a_subject a) of
               None \<Rightarrow> s1
             | Some t \<Rightarrow>
                 if t = [] then s1
                 else log (''Setting subject: '' @ t)
                        (s1\<lparr>current_context := (current_context s1)\<lparr>ctx_subject := Some t\<rparr>,
                            subject_var := t\<rparr>));
          s3 =
            (case dict_get (a_body a) of
               None \<Rightarrow> s2
             | Some b \<Rightarrow>
                 if b = [] then s2
                 else log ''Setting message body''
                        (s2\<lparr>current_context := (current_context s2)\<lparr>partial_body := Some b\<rparr>,
                            message_text := b\<rparr>))
      in provide_next_step_guidance s3)"

text \<open>
  In \<open>_handle_continue_body_intent\<close> a body that is null reaches \<open>str + None\<close> in the
  first branch, a \<open>TypeError\<close>, and \<open>insert(tk.END, None)\<close> in the second, after the
  widget has been emptied: tkinter ends the argument list of a Tcl call at \<open>None\<close>, and
  Tcl rejects \<open>insert\<close> without text.
\<close>

definition handle_continue_body_intent :: "env \<Rightarrow> analysis \<Rightarrow> app \<Rightarrow> outcome" where
  "handle_continue_body_intent e a s =
     (let current_text = py_strip (text_get s);
          done = (\<lambda>s'. (None, speak ''Message updated'' (set_status ''Message updated'' s')))
      in if truthy_bool (get_default (a_continue_previous a) False) \<and> current_text \<noteq> []
         then
           (case get_default (a_body a) [] of
              None \<Rightarrow>
                (Some (TypeError (''can only concatenate str (not '' @ dq @ ''NoneType'' @ dq @ '') to str'')), s)
            | Some b \<Rightarrow>
                (let new_text = current_text @ '' '' @ b
                 in done (log ''Appended to message body''
                      (s\<lparr>message_text := new_text,
                         current_context := (current_context s)\<lparr>partial_body := Some new_text\<rparr>\<rparr>))))
         else
           (case get_default (a_body a) [] of
              None \<Rightarrow> (Some (TclError (tcl_message e)), s\<lparr>message_text := []\<rparr>)
            | Some b \<Rightarrow>
                done (log ''Updated message body''
                  (s\<lparr>message_text := b,
                     current_context := (current_context s)\<lparr>partial_body := Some b\<rparr>\<rparr>))))"

definition handle_send_intent :: "env \<Rightarrow> app \<Rightarrow> app" where
  "handle_send_intent e s = reset_conversation_context (send_email e s)"

definition handle_clear_intent :: "app \<Rightarrow> app" where
  "handle_clear_intent s =
     reset_conversation_context (speak ''Form cleared'' (set_status ''Form cleared'' (clear_form s)))"

definition handle_unknown_intent :: "app \<Rightarrow> app" where
  "handle_unknown_intent s =
     (if \<not> in_conversation (current_context s)
      then speak ''I'm not sure what you want to do. Try sending an email to someone.''
             (set_status (''Try '' @ sq @ ''Send an email to [name]'' @ sq)
                (log (''I'm not sure what you want to do. Try saying '' @ sq @ ''Send an email to [name]'' @ sq) s))
      else speak ''I didn't understand that in the context of your email.''
             (set_status ''Please try again''
                (log ''I didn't understand that in the context of your email. Please try again.'' s)))"

definition show_help :: "app \<Rightarrow> app" where
  "show_help s =
     (let help_message =
            ''You can say things like:'' @ [CHR 0x0A] @
            ''- '' @ sq @ ''Send an email to John about the project'' @ sq @ [CHR 0x0A] @
            ''- '' @ sq @ ''The meeting is scheduled for Thursday'' @ sq @ [CHR 0x0A] @
            ''- '' @ sq @ ''Send it now'' @ sq @ [CHR 0x0A] @
            ''- '' @ sq @ ''Start over'' @ sq @ [CHR 0x0A] @
            ''- '' @ sq @ ''Add Sarah to my contacts'' @ sq
      in speak ''I've shown some help in the log''
           (set_status ''Help info in log'' (log help_message s)))"

definition show_add_contact_dialog :: "app \<Rightarrow> app" where
  "show_add_contact_dialog s = show_dialog AddContactDialog s"

text \<open>
  \<open>_handle_intent\<close>: \<open>analysis["intent"]\<close> raises \<open>KeyError\<close> on a missing key; a value
  that is no key of the handler dict, null included, selects the handler of UNKNOWN.
\<close>

definition handle_intent :: "env \<Rightarrow> analysis \<Rightarrow> app \<Rightarrow> outcome" where
  "handle_intent e a s =
     (case a_intent a of
        Absent \<Rightarrow> (Some (KeyError (sq @ ''intent'' @ sq)), s)
      | Null \<Rightarrow> (None, handle_unknown_intent s)
      | Val i \<Rightarrow>
          if i = ''COMPOSE_EMAIL'' then (None, handle_compose_intent a s)
          else if i = ''CONTINUE_BODY'' then handle_continue_body_intent e a s
          else if i = ''SEND_EMAIL'' then (None, handle_send_intent e s)
          else if i = ''CLEAR_FORM'' then (None, handle_clear_intent s)
          else if i = ''ADD_CONTACT'' then (None, show_add_contact_dialog s)
          else if i = ''HELP'' then (None, show_help s)
          else (None, handle_unknown_intent s))"


section \<open>ui/app.py: the fallback and the turn\<close>

definition handle_command_fallback :: "env \<Rightarrow> string \<Rightarrow> app \<Rightarrow> outcome" where
  "handle_command_fallback e command s =
     (let command_lower = py_lower command
      in if contains command_lower ''send'' \<and> contains command_lower ''email''
         then
           (case py_split command_lower ''to'' of
              Inl ex \<Rightarrow> (Some ex, s)
            | Inr parts \<Rightarrow>
                if length parts > 1
                then
                  (case py_split (py_strip (parts ! 1)) '' '' of
                     Inl ex \<Rightarrow> (Some ex, s)
                   | Inr [] \<Rightarrow> (Some (IndexError ''list index out of range''), s)
                   | Inr (recipient # _) \<Rightarrow>
                       (None,
                        speak ''I need more details for your email''
                          (set_status ''I need more details''
                             (log (''Manually detected recipient: '' @ recipient)
                                (s\<lparr>recipient_var := recipient\<rparr>)))))
                else (None, s))
         else if contains command_lower ''send'' \<and> recipient_var s \<noteq> []
         then (None, send_email e s)
         else if contains command_lower ''clear'' \<or> contains command_lower ''start over''
         then (None,
               reset_conversation_context
                 (speak ''Form cleared'' (set_status ''Form cleared'' (clear_form s))))
         else (None,
               speak ''I didn't understand that command''
                 (set_status ''I didn't understand that'' s)))"

text \<open>
  \<open>process_voice_command\<close>, given what \<open>analyze_command\<close> returned for the command and
  for \<open>build_conversation_context\<close> of the state. The \<open>except\<close> clause logs the exception
  and keeps the state the handler had reached.
\<close>

definition process_voice_command :: "env \<Rightarrow> analysis_result \<Rightarrow> string \<Rightarrow> app \<Rightarrow> app" where
  "process_voice_command e result command s =
     (let s0 = set_status ''Processing...'' s;
          r =
            (case result of
               NoResult \<Rightarrow> handle_command_fallback e command s0
             | NonDict ty \<Rightarrow>
                 (Some (AttributeError
                    (sq @ ty @ sq @ '' object has no attribute '' @ sq @ ''get'' @ sq)), s0)
             | Dict a \<Rightarrow>
                 (let shown =
                        (case get_default (a_explanation a) ''No explanation provided'' of
                           None \<Rightarrow> ''None''
                         | Some x \<Rightarrow> x);
                      s1 = log (''AI understood: '' @ shown) s0;
                      s2 = s1\<lparr>current_context := (current_context s1)\<lparr>in_conversation := True\<rparr>\<rparr>
                  in case a_intent a of
                       Absent \<Rightarrow> (Some (KeyError (sq @ ''intent'' @ sq)), s2)
                     | Null \<Rightarrow>
                         handle_intent e a
                           (s2\<lparr>current_context := (current_context s2)\<lparr>last_intent := None\<rparr>\<rparr>)
                     | Val i \<Rightarrow>
                         handle_intent e a
                           (s2\<lparr>current_context := (current_context s2)\<lparr>last_intent := Some i\<rparr>\<rparr>)))
      in case r of
           (None, s') \<Rightarrow> s'
         | (Some ex, s') \<Rightarrow>
             set_status ''Error occurred'' (log (''Error processing command: '' @ str_exn ex) s'))"

text \<open>The callback of the Save button of the add-contact dialog.\<close>

definition save_contact :: "string \<Rightarrow> string \<Rightarrow> app \<Rightarrow> app" where
  "save_contact name_var email_var s =
     (let name = py_lower (py_strip name_var);
          email = py_strip email_var
      in if name = [] \<or> email = []
         then show_dialog (ShowError ''Error'' ''Name and email are required'') s
         else if \<not> is_valid_email email
         then show_dialog (ShowError ''Error'' ''Invalid email address'') s
         else log (''Added contact: '' @ name @ '' ('' @ email @ '')'')
                (s\<lparr>contacts := (contacts s)(name \<mapsto> email)\<rparr>))"

text \<open>
  What can happen to the application: a recognised utterance, a click on Send Email or on
  Clear, typing into the form, and saving a contact.
\<close>

datatype event =
    Utterance env analysis_result string
  | SendButton env
  | ClearButton
  | EditForm string string string
  | SaveContact string string

fun step :: "app \<Rightarrow> event \<Rightarrow> app" where
  "step s (Utterance e result command) = process_voice_command e result command s"
| "step s (SendButton e) = send_email e s"
| "step s ClearButton = clear_form s"
| "step s (EditForm r t b) = s\<lparr>recipient_var := r, subject_var := t, message_text := b\<rparr>"
| "step s (SaveContact n m) = save_contact n m s"

definition run :: "app \<Rightarrow> event list \<Rightarrow> app" where
  "run s es = foldl step s es"


section \<open>core/openai_assistant.py\<close>

text \<open>
  The values \<open>json.loads\<close> produces, \<open>JNull\<close> being Python's \<open>None\<close>; numbers are kept
  to the integers. \<open>json_loads\<close> decodes the three literals itself and leaves every other
  text to \<open>decode\<close>, which stands for the rest of the library's decoder and answers with
  the value or with the exception it raises.
\<close>

datatype json =
    JNull
  | JBool bool
  | JInt int
  | JStr string
  | JArr "json list"
  | JObj "(string \<times> json) list"

definition json_whitespace :: "char \<Rightarrow> bool" where
  "json_whitespace c = (c \<in> set [CHR '' '', CHR 0x09, CHR 0x0A, CHR 0x0D])"

definition json_loads :: "(string \<Rightarrow> exn + json) \<Rightarrow> string \<Rightarrow> exn + json" where
  "json_loads decode s =
     (let t = rev (dropWhile json_whitespace (rev (dropWhile json_whitespace s)))
      in if t = ''null'' then Inr JNull
         else if t = ''true'' then Inr (JBool True)
         else if t = ''false'' then Inr (JBool False)
         else decode s)"

text \<open>
  The chat completion request either raises or answers with a message whose content is a
  string or \<open>None\<close>.
\<close>

datatype completion = Raises exn | Content "string option"

text \<open>
  \<open>analyze_command\<close>: \<open>Inl\<close> would be an exception leaving the method, \<open>Inr v\<close> is the
  value returned. The inner \<open>except\<close> catches \<open>JSONDecodeError\<close>, the outer one every
  exception.
\<close>

definition analyze_command :: "(string \<Rightarrow> exn + json) \<Rightarrow> completion \<Rightarrow> exn + json" where
  "analyze_command decode response =
     (let attempt =
            (case response of
               Raises ex \<Rightarrow> Inl ex
             | Content None \<Rightarrow>
                 Inl (AttributeError
                   (sq @ ''NoneType'' @ sq @ '' object has no attribute '' @ sq @ ''strip'' @ sq))
             | Content (Some c) \<Rightarrow>
                 (case json_loads decode (py_strip c) of
                    Inl (JSONDecodeError m) \<Rightarrow> Inr JNull
                  | Inl ex \<Rightarrow> Inl ex
                  | Inr v \<Rightarrow> Inr v))
      in case attempt of
           Inl ex \<Rightarrow> Inr JNull
         | Inr v \<Rightarrow> Inr v)"

fun is_object :: "json \<Rightarrow> bool" where
  "is_object (JObj kvs) = True"
| "is_object v = False"

section \<open>Notions of the specification\<close>

text \<open>
  The populated fields of a context in the order recipient, subject, body, each with its
  label.
\<close>

definition summary_entries :: "conversation \<Rightarrow> (string \<times> string) list" where
  "summary_entries c =
     [(l, v). (l, Some v) \<leftarrow>
        [(''Recipient'', ctx_recipient c), (''Subject'', ctx_subject c),
         (''Previous message content'', partial_body c)], v \<noteq> []]"

text \<open>
  The value an analysis sets for a field (none when the key is missing, null or empty), and
  the value most recently set by a sequence of analyses.
\<close>

definition sets_field :: "(analysis \<Rightarrow> string field) \<Rightarrow> analysis \<Rightarrow> bool" where
  "sets_field f a = truthy (dict_get (f a))"

definition latest :: "(analysis \<Rightarrow> string field) \<Rightarrow> analysis list \<Rightarrow> string option" where
  "latest f as =
     (case filter (sets_field f) as of
        [] \<Rightarrow> None
      | x # xs \<Rightarrow> dict_get (f (last (x # xs))))"

text \<open>
  The whitespace-delimited tokens of an utterance, and the token that follows the first
  token equal to a given word.
\<close>

fun tokens_from :: "string \<Rightarrow> string \<Rightarrow> string list" where
  "tokens_from acc [] = (if acc = [] then [] else [rev acc])"
| "tokens_from acc (x # xs) =
     (if isspace x then (if acc = [] then [] else [rev acc]) @ tokens_from [] xs
      else tokens_from (x # acc) xs)"

fun token_after :: "string \<Rightarrow> string list \<Rightarrow> string option" where
  "token_after w (x # y # ys) = (if x = w then Some y else token_after w (y # ys))"
| "token_after w ys = None"

text \<open>
  The text behind the first occurrence of the separator \<open>c # sep\<close>, and the text before
  it (all of the text when it does not occur).
\<close>

fun after_first :: "char \<Rightarrow> string \<Rightarrow> string \<Rightarrow> string option" where
  "after_first c sep [] = None"
| "after_first c sep (x # xs) =
     (if x = c \<and> startswith xs sep then Some (drop (length sep) xs) else after_first c sep xs)"

fun up_to_first :: "char \<Rightarrow> string \<Rightarrow> string \<Rightarrow> string" where
  "up_to_first c sep [] = []"
| "up_to_first c sep (x # xs) =
     (if x = c \<and> startswith xs sep then [] else x # up_to_first c sep xs)"

text \<open>
  A compose turn is an utterance for which the service returned a dict with intent
  COMPOSE_EMAIL; \<open>analysis_of\<close> is the analysis of an understood utterance.
\<close>

fun compose_turn :: "event \<Rightarrow> bool" where
  "compose_turn (Utterance e (Dict a) command) = (a_intent a = Val ''COMPOSE_EMAIL'')"
| "compose_turn ev = False"

fun analysis_of :: "event \<Rightarrow> analysis list" where
  "analysis_of (Utterance e (Dict a) command) = [a]"
| "analysis_of ev = []"

text \<open>
  The state in which \<open>process_voice_command\<close> calls \<open>_handle_intent\<close>: the analysis is
  logged, \<open>in_conversation\<close> is set and \<open>last_intent\<close> is the intent of the analysis.
\<close>

definition after_understood :: "analysis \<Rightarrow> app \<Rightarrow> app" where
  "after_understood a s =
     (let s1 = log (''AI understood: '' @
                 (case get_default (a_explanation a) ''No explanation provided'' of
                    None \<Rightarrow> ''None'' | Some x \<Rightarrow> x)) (set_status ''Processing...'' s)
      in s1\<lparr>current_context :=
            (current_context s1)\<lparr>in_conversation := True, last_intent := dict_get (a_intent a)\<rparr>\<rparr>)"

text \<open>The draft: the conversation context and the three fields of the form.\<close>

definition draft_of :: "app \<Rightarrow> conversation \<times> string \<times> string \<times> string" where
  "draft_of s = (current_context s, recipient_var s, subject_var s, message_text s)"

text \<open>
  A context is settled when a conversation is in progress or nothing at all is recorded.
\<close>

definition settled :: "conversation \<Rightarrow> bool" where
  "settled c = (in_conversation c \<or> c = empty_context)"

section \<open>Sample inputs\<close>

definition env_delivered :: env where
  "env_delivered = \<lparr>answer_yes = True, smtp = Delivered, tcl_message = []\<rparr>"

definition env_refused :: env where
  "env_refused = \<lparr>answer_yes = True, smtp = OtherError ''connection refused'', tcl_message = []\<rparr>"

definition analysis_of_intent :: "string \<Rightarrow> analysis" where
  "analysis_of_intent i =
     \<lparr>a_intent = Val i, a_recipient = Null, a_subject = Null, a_body = Null,
      a_continue_previous = Val False, a_explanation = Val ''ok''\<rparr>"

definition compose_bob :: analysis where
  "compose_bob =
     \<lparr>a_intent = Val ''COMPOSE_EMAIL'', a_recipient = Val ''bob@example.com'',
      a_subject = Val ''Hi'', a_body = Val ''Hello'', a_continue_previous = Val False,
      a_explanation = Val ''ok''\<rparr>"

definition continue_null :: analysis where
  "continue_null =
     \<lparr>a_intent = Val ''CONTINUE_BODY'', a_recipient = Null, a_subject = Null, a_body = Null,
      a_continue_previous = Val True, a_explanation = Val ''ok''\<rparr>"

text \<open>The application after one utterance that the service understood as a complete email.\<close>

definition state_bob :: app where
  "state_bob =
     process_voice_command env_delivered (Dict compose_bob) ''email bob''
       (init_application_state Map.empty)"

definition compose_lunch :: analysis where
  "compose_lunch = (analysis_of_intent ''COMPOSE_EMAIL'')\<lparr>a_subject := Val ''Lunch''\<rparr>"

section \<open>Effect of the operations on the conversation context\<close>

lemmas ui_defs = log_def speak_def set_status_def show_dialog_def

lemma validate_email_form_context [simp]:
  "current_context (snd (validate_email_form r b s)) = current_context s"
  by (simp add: validate_email_form_def ui_defs Let_def split: option.splits)

lemma send_email_context [simp]: "current_context (send_email e s) = current_context s"
  by (simp add: send_email_def confirm_send_email_def clear_form_def ui_defs Let_def)

lemma guidance_context [simp]:
  "current_context (provide_next_step_guidance s) = current_context s"
  by (simp add: provide_next_step_guidance_def ui_defs Let_def)

lemma compose_in_conversation [simp]:
  "in_conversation (current_context (handle_compose_intent a s)) =
     in_conversation (current_context s)"
  by (simp add: handle_compose_intent_def ui_defs Let_def split: option.splits)

lemma continue_in_conversation [simp]:
  "in_conversation (current_context (snd (handle_continue_body_intent e a s))) =
     in_conversation (current_context s)"
  by (simp add: handle_continue_body_intent_def ui_defs Let_def split: option.splits)

lemma send_intent_resets [simp]: "current_context (handle_send_intent e s) = empty_context"
  by (simp add: handle_send_intent_def reset_conversation_context_def)

lemma clear_intent_resets [simp]: "current_context (handle_clear_intent s) = empty_context"
  by (simp add: handle_clear_intent_def reset_conversation_context_def)

lemma unknown_context [simp]: "current_context (handle_unknown_intent s) = current_context s"
  by (simp add: handle_unknown_intent_def ui_defs)

lemma help_context [simp]: "current_context (show_help s) = current_context s"
  by (simp add: show_help_def ui_defs Let_def)

lemma add_contact_context [simp]:
  "current_context (show_add_contact_dialog s) = current_context s"
  by (simp add: show_add_contact_dialog_def ui_defs)

lemma handle_intent_settled:
  "in_conversation (current_context s) \<Longrightarrow> settled (current_context (snd (handle_intent e a s)))"
  by (cases "a_intent a") (simp_all add: handle_intent_def settled_def)

lemma fallback_context:
  "current_context (snd (handle_command_fallback e command s)) = current_context s \<or>
   current_context (snd (handle_command_fallback e command s)) = empty_context"
  by (simp add: handle_command_fallback_def py_split_def reset_conversation_context_def
        ui_defs Let_def split: list.splits)

lemma process_voice_command_settled:
  assumes "settled (current_context s)"
  shows "settled (current_context (process_voice_command e result command s))"
proof (cases result)
  case NoResult
  obtain ex s' where r: "handle_command_fallback e command (set_status ''Processing...'' s) = (ex, s')"
    by (cases "handle_command_fallback e command (set_status ''Processing...'' s)") auto
  have "current_context (set_status ''Processing...'' s) = current_context s"
    by (simp add: ui_defs)
  with fallback_context[of e command "set_status ''Processing...'' s"] assms r
  have "settled (current_context s')"
    by (auto simp: settled_def)
  with NoResult r show ?thesis
    by (cases ex) (simp_all add: process_voice_command_def ui_defs Let_def)
next
  case (NonDict ty)
  with assms show ?thesis
    by (simp add: process_voice_command_def ui_defs Let_def)
next
  case (Dict a)
  let ?s1 = "log (''AI understood: '' @
               (case get_default (a_explanation a) ''No explanation provided'' of
                  None \<Rightarrow> ''None'' | Some x \<Rightarrow> x)) (set_status ''Processing...'' s)"
  show ?thesis
  proof (cases "a_intent a")
    case Absent
    with Dict show ?thesis
      by (simp add: process_voice_command_def ui_defs Let_def settled_def)
  next
    case Null
    let ?s3 = "?s1\<lparr>current_context :=
                  (current_context ?s1)\<lparr>in_conversation := True, last_intent := None\<rparr>\<rparr>"
    obtain ex s' where r: "handle_intent e a ?s3 = (ex, s')"
      by (cases "handle_intent e a ?s3") auto
    have "settled (current_context (snd (handle_intent e a ?s3)))"
      by (rule handle_intent_settled) simp
    with r have "settled (current_context s')" by simp
    with Dict Null r show ?thesis
      by (cases ex) (simp_all add: process_voice_command_def ui_defs Let_def)
  next
    case (Val i)
    let ?s3 = "?s1\<lparr>current_context :=
                  (current_context ?s1)\<lparr>in_conversation := True, last_intent := Some i\<rparr>\<rparr>"
    obtain ex s' where r: "handle_intent e a ?s3 = (ex, s')"
      by (cases "handle_intent e a ?s3") auto
    have "settled (current_context (snd (handle_intent e a ?s3)))"
      by (rule handle_intent_settled) simp
    with r have "settled (current_context s')" by simp
    with Dict Val r show ?thesis
      by (cases ex) (simp_all add: process_voice_command_def ui_defs Let_def)
  qed
qed

lemma step_settled: "settled (current_context s) \<Longrightarrow> settled (current_context (step s ev))"
  by (cases ev)
     (simp_all add: process_voice_command_settled clear_form_def save_contact_def ui_defs Let_def)

lemma run_settled: "settled (current_context s) \<Longrightarrow> settled (current_context (run s es))"
  unfolding run_def by (induction es arbitrary: s) (simp_all add: step_settled)

lemma valid_bob: "is_valid_email ''bob@example.com''"
  by (simp add: is_valid_email_def alnum_def alpha_def)

lemmas eval_defs =
  run_def process_voice_command_def handle_intent_def handle_compose_intent_def
  handle_continue_body_intent_def handle_command_fallback_def handle_send_intent_def
  handle_clear_intent_def handle_unknown_intent_def reset_conversation_context_def
  send_email_def validate_email_form_def confirm_send_email_def clear_form_def
  provide_next_step_guidance_def init_application_state_def empty_context_def text_get_def
  py_strip_def isspace_def py_lower_def lower_char_def py_split_def startswith_def
  env_delivered_def env_refused_def analysis_of_intent_def compose_bob_def continue_null_def
  valid_bob sq_def dq_def Let_def

section \<open>The invariant of the conversation context\<close>

text \<open>
  C8. In every state reached from the initial state by any sequence of events (utterances
  answered by any analysis or by none, clicks on Send Email and Clear, edits of the form,
  saved contacts), a context whose \<open>in_conversation\<close> is false has no recipient, no subject,
  no body and no last intent.
\<close>

theorem inactive_conversation_is_empty:
  "\<not> in_conversation (current_context (run (init_application_state cs) es)) \<longrightarrow>
     ctx_recipient (current_context (run (init_application_state cs) es)) = None \<and>
     ctx_subject (current_context (run (init_application_state cs) es)) = None \<and>
     partial_body (current_context (run (init_application_state cs) es)) = None \<and>
     last_intent (current_context (run (init_application_state cs) es)) = None"
proof -
  have "settled (current_context (init_application_state cs))"
    by (simp add: settled_def init_application_state_def)
  then have "settled (current_context (run (init_application_state cs) es))"
    by (rule run_settled)
  then show ?thesis
    by (auto simp: settled_def empty_context_def)
qed

theorem inactive_conversation_is_empty_witness:
  "\<not> in_conversation (current_context (run (init_application_state Map.empty)
       [Utterance env_delivered (Dict compose_bob) ''email bob'',
        Utterance env_delivered (Dict (analysis_of_intent ''CLEAR_FORM'')) ''start over''])) \<and>
   ctx_recipient (current_context (run (init_application_state Map.empty)
       [Utterance env_delivered (Dict compose_bob) ''email bob'',
        Utterance env_delivered (Dict (analysis_of_intent ''CLEAR_FORM'')) ''start over''])) = None \<and>
   partial_body (current_context (run (init_application_state Map.empty)
       [Utterance env_delivered (Dict compose_bob) ''email bob'',
        Utterance env_delivered (Dict (analysis_of_intent ''CLEAR_FORM'')) ''start over''])) = None"
proof -
  have inactive: "\<not> in_conversation (current_context (run (init_application_state Map.empty)
       [Utterance env_delivered (Dict compose_bob) ''email bob'',
        Utterance env_delivered (Dict (analysis_of_intent ''CLEAR_FORM'')) ''start over'']))"
    by (simp add: eval_defs ui_defs)
  with inactive_conversation_is_empty [of Map.empty
       "[Utterance env_delivered (Dict compose_bob) ''email bob'',
         Utterance env_delivered (Dict (analysis_of_intent ''CLEAR_FORM'')) ''start over'']"]
  show ?thesis by blast
qed

lemma state_bob_eval:
  "state_bob =
     \<lparr>current_context =
        \<lparr>ctx_recipient = Some ''bob@example.com'', ctx_subject = Some ''Hi'',
         partial_body = Some ''Hello'', in_conversation = True,
         last_intent = Some ''COMPOSE_EMAIL''\<rparr>,
      contacts = Map.empty, recipient_var = ''bob@example.com'', subject_var = ''Hi'',
      message_text = ''Hello'',
      status_text = ''Your email is ready to send. Say '' @ sq @ ''send it'' @ sq @ '' when ready.'',
      log_text = [''AI understood: ok'', ''Setting recipient: bob@example.com'',
                  ''Setting subject: Hi'', ''Setting message body''],
      spoken = [''Your email is ready. Say send it when ready.''], dialogs = [],
      send_calls = []\<rparr>"
  by (simp add: state_bob_def eval_defs ui_defs)

section \<open>The context summary\<close>

text \<open>
  C9. \<open>_build_conversation_context\<close> returns the empty string when \<open>in_conversation\<close> is
  false. When it is true, it lists exactly the populated fields, in the order recipient,
  subject, body, each as its label, a colon and the value, joined by a semicolon and a
  space; the list stands between the words \<open>Current email draft:\<close> and a full stop, and the
  result is empty when no field is populated.
\<close>

theorem build_conversation_context_lists_populated:
  "build_conversation_context s =
     (if in_conversation (current_context s) \<and> summary_entries (current_context s) \<noteq> []
      then ''Current email draft: '' @
           py_join ''; ''
             (map (\<lambda>(l, v). l @ '': '' @ v) (summary_entries (current_context s))) @ ''. ''
      else [])"
proof -
  have part:
    "context_part (l @ '': '') v =
       map (\<lambda>(l, v). l @ '': '' @ v) [(l', w). (l', Some w) \<leftarrow> [(l, v)], w \<noteq> []]"
    for l v
    by (cases v) auto
  show ?thesis
    unfolding build_conversation_context_def summary_entries_def Let_def
    using part[of "''Recipient''" "ctx_recipient (current_context s)"]
          part[of "''Subject''" "ctx_subject (current_context s)"]
          part[of "''Previous message content''" "partial_body (current_context s)"]
    by (cases "ctx_recipient (current_context s)"; cases "ctx_subject (current_context s)";
        cases "partial_body (current_context s)") auto
qed

theorem build_conversation_context_lists_populated_witness:
  "build_conversation_context
     (state_bob\<lparr>current_context := (current_context state_bob)\<lparr>ctx_subject := None\<rparr>\<rparr>) =
   ''Current email draft: Recipient: bob@example.com; Previous message content: Hello. '' \<and>
   build_conversation_context (init_application_state Map.empty) = []"
  using build_conversation_context_lists_populated
          [of "state_bob\<lparr>current_context := (current_context state_bob)\<lparr>ctx_subject := None\<rparr>\<rparr>"]
        build_conversation_context_lists_populated [of "init_application_state Map.empty"]
  by (simp add: state_bob_eval summary_entries_def init_application_state_def empty_context_def)

section \<open>Unknown intent\<close>

text \<open>
  The handler of UNKNOWN alone tells a first interaction from a draft in progress.
\<close>

lemma handle_unknown_intent_first:
  "\<not> in_conversation (current_context s) \<Longrightarrow>
     spoken (handle_unknown_intent s) =
       spoken s @ [''I'm not sure what you want to do. Try sending an email to someone.'']"
  by (simp add: handle_unknown_intent_def ui_defs)

lemma handle_unknown_intent_later:
  "in_conversation (current_context s) \<Longrightarrow>
     spoken (handle_unknown_intent s) =
       spoken s @ [''I didn't understand that in the context of your email.'']"
  by (simp add: handle_unknown_intent_def ui_defs)

text \<open>
  C1. A turn whose analysis has intent UNKNOWN, taken in the initial state, where
  \<open>in_conversation\<close> is false: \<open>process_voice_command\<close> sets \<open>in_conversation\<close> before it
  dispatches, so the handler takes the branch of a draft in progress and the guidance of
  the first interaction is not emitted.
\<close>

theorem unknown_intent_on_first_turn:
  "spoken (process_voice_command e (Dict (analysis_of_intent ''UNKNOWN'')) command
             (init_application_state cs)) =
     [''I didn't understand that in the context of your email.''] \<and>
   status_text (process_voice_command e (Dict (analysis_of_intent ''UNKNOWN'')) command
                  (init_application_state cs)) = ''Please try again'' \<and>
   log_text (process_voice_command e (Dict (analysis_of_intent ''UNKNOWN'')) command
               (init_application_state cs)) =
     [''AI understood: ok'',
      ''I didn't understand that in the context of your email. Please try again.'']"
  by (simp add: eval_defs ui_defs)

section \<open>Composing\<close>

text \<open>
  C3, as amended. \<open>_handle_compose_intent\<close> sets a field of the context to the value of
  the analysis when that value is a non-empty string, and leaves it as it was when the key
  is missing, null or the empty string; \<open>in_conversation\<close> and \<open>last_intent\<close> are not
  touched.
\<close>

theorem compose_sets_nonempty_fields:
  "ctx_recipient (current_context (handle_compose_intent a s)) =
     (if sets_field a_recipient a then dict_get (a_recipient a)
      else ctx_recipient (current_context s)) \<and>
   ctx_subject (current_context (handle_compose_intent a s)) =
     (if sets_field a_subject a then dict_get (a_subject a)
      else ctx_subject (current_context s)) \<and>
   partial_body (current_context (handle_compose_intent a s)) =
     (if sets_field a_body a then dict_get (a_body a)
      else partial_body (current_context s)) \<and>
   in_conversation (current_context (handle_compose_intent a s)) =
     in_conversation (current_context s) \<and>
   last_intent (current_context (handle_compose_intent a s)) = last_intent (current_context s)"
  by (simp add: handle_compose_intent_def sets_field_def ui_defs Let_def split: option.splits)

theorem compose_sets_nonempty_fields_witness:
  "ctx_recipient (current_context
      (handle_compose_intent (analysis_of_intent ''COMPOSE_EMAIL''\<lparr>a_subject := Val ''Lunch''\<rparr>)
         state_bob)) = Some ''bob@example.com'' \<and>
   ctx_subject (current_context
      (handle_compose_intent (analysis_of_intent ''COMPOSE_EMAIL''\<lparr>a_subject := Val ''Lunch''\<rparr>)
         state_bob)) = Some ''Lunch''"
  using compose_sets_nonempty_fields
          [of "analysis_of_intent ''COMPOSE_EMAIL''\<lparr>a_subject := Val ''Lunch''\<rparr>" state_bob]
  by (simp add: sets_field_def analysis_of_intent_def state_bob_eval)

text \<open>
  C3 as stated fails where the analysis holds the empty string for a field: the recipient
  of the context stays \<open>bob@example.com\<close>, and the whole result equals that of the analysis
  without the key.
\<close>

theorem compose_empty_string_counterexample:
  "ctx_recipient (current_context
      (handle_compose_intent (compose_bob\<lparr>a_recipient := Val []\<rparr>) state_bob)) =
     Some ''bob@example.com'' \<and>
   handle_compose_intent (compose_bob\<lparr>a_recipient := Val []\<rparr>) state_bob =
   handle_compose_intent (compose_bob\<lparr>a_recipient := Absent\<rparr>) state_bob"
  by (simp add: state_bob_eval handle_compose_intent_def compose_bob_def ui_defs Let_def
        provide_next_step_guidance_def text_get_def py_strip_def isspace_def)

section \<open>Continuing the body\<close>

lemma continue_body_appends:
  assumes "a_continue_previous a = Val True" "py_strip (text_get s) \<noteq> []" "a_body a \<noteq> Null"
  shows "fst (handle_continue_body_intent e a s) = None \<and>
     message_text (snd (handle_continue_body_intent e a s)) =
       py_strip (text_get s) @ '' '' @ (case a_body a of Val b \<Rightarrow> b | _ \<Rightarrow> []) \<and>
     partial_body (current_context (snd (handle_continue_body_intent e a s))) =
       Some (py_strip (text_get s) @ '' '' @ (case a_body a of Val b \<Rightarrow> b | _ \<Rightarrow> []))"
  using assms by (cases "a_body a") (simp_all add: handle_continue_body_intent_def ui_defs Let_def)

lemma continue_body_replaces:
  assumes "\<not> truthy_bool (get_default (a_continue_previous a) False) \<or> py_strip (text_get s) = []"
    and "a_body a \<noteq> Null"
  shows "fst (handle_continue_body_intent e a s) = None \<and>
     message_text (snd (handle_continue_body_intent e a s)) =
       (case a_body a of Val b \<Rightarrow> b | _ \<Rightarrow> []) \<and>
     partial_body (current_context (snd (handle_continue_body_intent e a s))) =
       Some (case a_body a of Val b \<Rightarrow> b | _ \<Rightarrow> [])"
  using assms by (cases "a_body a") (auto simp add: handle_continue_body_intent_def ui_defs Let_def)

text \<open>
  C5. A CONTINUE_BODY analysis whose body is null and whose \<open>continue_previous\<close> is true,
  on a form that holds \<open>Hello\<close>: the handler raises \<open>TypeError\<close> before it changes
  anything, and the turn ends with the body as it was and the status \<open>Error occurred\<close>.
\<close>

theorem continue_body_null_raises:
  "handle_continue_body_intent e continue_null state_bob =
     (Some (TypeError (''can only concatenate str (not '' @ dq @ ''NoneType'' @ dq @ '') to str'')),
      state_bob) \<and>
   message_text (process_voice_command e (Dict continue_null) ''and more'' state_bob) = ''Hello'' \<and>
   partial_body (current_context
      (process_voice_command e (Dict continue_null) ''and more'' state_bob)) = Some ''Hello'' \<and>
   status_text (process_voice_command e (Dict continue_null) ''and more'' state_bob) =
     ''Error occurred''"
  by (simp add: state_bob_eval eval_defs ui_defs)

section \<open>Send and clear\<close>

text \<open>
  A turn understood as SEND_EMAIL or CLEAR_FORM ends with the empty context, whatever the
  state before and whatever the outcome of the send; so does the clear branch of the
  fallback.
\<close>

lemma send_or_clear_turn_resets:
  assumes "a_intent a = Val ''SEND_EMAIL'' \<or> a_intent a = Val ''CLEAR_FORM''"
  shows "current_context (process_voice_command e (Dict a) command s) = empty_context"
  using assms by (auto simp add: process_voice_command_def handle_intent_def Let_def)

lemma fallback_clear_resets:
  assumes "\<not> contains (py_lower command) ''send''"
    and "contains (py_lower command) ''clear'' \<or> contains (py_lower command) ''start over''"
  shows "current_context (process_voice_command e NoResult command s) = empty_context"
  using assms
  by (auto simp add: process_voice_command_def handle_command_fallback_def
        reset_conversation_context_def Let_def)

text \<open>
  C7. The handlers of SEND_EMAIL and CLEAR_FORM and the clear branch of the fallback end
  with \<open>_reset_conversation_context\<close> (lemmas \<open>send_or_clear_turn_resets\<close>,
  \<open>fallback_clear_resets\<close>); the send branch of the fallback calls \<open>_send_email\<close> alone.
  With the service down, the utterance \<open>send it now\<close> sends the draft and clears the form,
  and the context keeps its recipient, subject, body and \<open>in_conversation\<close>.
\<close>

theorem fallback_send_keeps_context:
  "current_context (process_voice_command env_delivered NoResult ''send it now'' state_bob) =
     \<lparr>ctx_recipient = Some ''bob@example.com'', ctx_subject = Some ''Hi'',
      partial_body = Some ''Hello'', in_conversation = True,
      last_intent = Some ''COMPOSE_EMAIL''\<rparr> \<and>
   send_calls (process_voice_command env_delivered NoResult ''send it now'' state_bob) =
     [(''bob@example.com'', ''Hi'', ''Hello'')] \<and>
   message_text (process_voice_command env_delivered NoResult ''send it now'' state_bob) = []"
  by (simp add: state_bob_eval eval_defs ui_defs)

section \<open>The analysis step\<close>

lemma analyze_command_returns: "\<exists>v. analyze_command decode response = Inr v"
  by (simp add: analyze_command_def Let_def
        split: completion.splits option.splits sum.splits exn.splits)

lemma analyze_command_none_on_error:
  "analyze_command decode (Raises ex) = Inr JNull \<and>
   analyze_command decode (Content None) = Inr JNull"
  by (simp add: analyze_command_def)

text \<open>
  C10. No exception leaves \<open>analyze_command\<close> (lemma \<open>analyze_command_returns\<close>), and a
  failed request gives \<open>None\<close>. A response that is valid JSON but no object is returned as
  it is: for the content \<open>true\<close> the method returns \<open>True\<close>, which is neither a dict nor
  \<open>None\<close>.
\<close>

theorem analyze_command_non_object:
  "analyze_command decode (Content (Some ''true'')) = Inr (JBool True) \<and>
   \<not> is_object (JBool True) \<and> JBool True \<noteq> JNull"
  by (simp add: analyze_command_def json_loads_def py_strip_def isspace_def json_whitespace_def)

section \<open>A send that fails\<close>

text \<open>
  \<open>_send_email\<close>, which the Send Email button, the fallback and the handler of SEND_EMAIL
  all call: when the form passes validation, the user confirms and the transport refuses,
  the reason is logged and shown, subject and body of the form are kept, the recipient of
  the form is kept or replaced by the address of the contact it named, and the
  conversation context is not touched.
\<close>

lemma failed_send_effect:
  assumes valid: "fst (validate_email_form (py_strip (recipient_var s)) (py_strip (text_get s)) s)"
    and yes: "answer_yes e"
    and failed: "email_sender_send_email (smtp e) = (False, reason)"
  shows "log_text (send_email e s) = log_text s @ [''Failed to send email: '' @ reason] \<and>
         last (dialogs (send_email e s)) = ShowError ''Error'' (''Failed to send email: '' @ reason) \<and>
         subject_var (send_email e s) = subject_var s \<and>
         message_text (send_email e s) = message_text s \<and>
         (recipient_var (send_email e s) = recipient_var s \<or>
          contacts s (py_lower (py_strip (recipient_var s))) = Some (recipient_var (send_email e s))) \<and>
         current_context (send_email e s) = current_context s"
proof -
  have form: "subject_var (snd (validate_email_form r b s)) = subject_var s \<and>
      message_text (snd (validate_email_form r b s)) = message_text s \<and>
      log_text (snd (validate_email_form r b s)) = log_text s" for r b
    by (simp add: validate_email_form_def ui_defs Let_def split: option.splits)
  have rcp: "fst (validate_email_form r b s) \<Longrightarrow>
      dialogs (snd (validate_email_form r b s)) = dialogs s \<and>
      (recipient_var (snd (validate_email_form r b s)) = recipient_var s \<or>
       contacts s (py_lower r) = Some (recipient_var (snd (validate_email_form r b s))))" for r b
    by (auto simp add: validate_email_form_def ui_defs Let_def split: option.splits if_splits)
  show ?thesis
    using valid yes failed form[of "py_strip (recipient_var s)" "py_strip (text_get s)"]
      rcp[of "py_strip (recipient_var s)" "py_strip (text_get s)"]
    by (simp add: send_email_def confirm_send_email_def ui_defs Let_def)
qed

text \<open>
  A send requested through the Send Email button or through the send branch of the
  fallback leaves the conversation context as it was, whatever the outcome.
\<close>

lemma send_button_keeps_context:
  "current_context (step s (SendButton e)) = current_context s"
  by simp

lemma fallback_send_keeps_context_always:
  assumes "contains (py_lower command) ''send''"
    and "\<not> contains (py_lower command) ''email''"
    and "recipient_var s \<noteq> []"
  shows "current_context (process_voice_command e NoResult command s) = current_context s"
  using assms
  by (simp add: process_voice_command_def handle_command_fallback_def ui_defs Let_def)

text \<open>
  C2. A send that the transport refuses, requested by a turn understood as SEND_EMAIL on
  the draft for \<open>bob@example.com\<close>: the send is attempted, the reason the transport gave
  is the last log entry, and the form keeps recipient, subject and body; but the handler
  resets the conversation context, which is then not the one before the turn. The same
  refused send requested with the service down, through the fallback, leaves the context
  as it was.
\<close>

theorem failed_send_turn_resets_context:
  "send_calls (process_voice_command env_refused (Dict (analysis_of_intent ''SEND_EMAIL''))
                 ''send it'' state_bob) = [(''bob@example.com'', ''Hi'', ''Hello'')] \<and>
   last (log_text (process_voice_command env_refused (Dict (analysis_of_intent ''SEND_EMAIL''))
                     ''send it'' state_bob)) =
     ''Failed to send email: Sending failed: connection refused'' \<and>
   recipient_var (process_voice_command env_refused (Dict (analysis_of_intent ''SEND_EMAIL''))
                    ''send it'' state_bob) = ''bob@example.com'' \<and>
   subject_var (process_voice_command env_refused (Dict (analysis_of_intent ''SEND_EMAIL''))
                  ''send it'' state_bob) = ''Hi'' \<and>
   message_text (process_voice_command env_refused (Dict (analysis_of_intent ''SEND_EMAIL''))
                   ''send it'' state_bob) = ''Hello'' \<and>
   current_context (process_voice_command env_refused (Dict (analysis_of_intent ''SEND_EMAIL''))
                      ''send it'' state_bob) = empty_context \<and>
   current_context (process_voice_command env_refused (Dict (analysis_of_intent ''SEND_EMAIL''))
                      ''send it'' state_bob) \<noteq> current_context state_bob \<and>
   current_context (process_voice_command env_refused NoResult ''send it'' state_bob) =
     current_context state_bob"
  by (simp add: state_bob_eval eval_defs ui_defs)

section \<open>Sequences of compose turns\<close>

lemma compose_fields:
  "ctx_recipient (current_context (handle_compose_intent a s)) =
     (if sets_field a_recipient a then dict_get (a_recipient a) else ctx_recipient (current_context s)) \<and>
   ctx_subject (current_context (handle_compose_intent a s)) =
     (if sets_field a_subject a then dict_get (a_subject a) else ctx_subject (current_context s)) \<and>
   partial_body (current_context (handle_compose_intent a s)) =
     (if sets_field a_body a then dict_get (a_body a) else partial_body (current_context s)) \<and>
   in_conversation (current_context (handle_compose_intent a s)) = in_conversation (current_context s) \<and>
   last_intent (current_context (handle_compose_intent a s)) = last_intent (current_context s)"
  by (simp add: handle_compose_intent_def sets_field_def ui_defs Let_def split: option.splits)

lemma compose_turn_eq:
  "a_intent a = Val ''COMPOSE_EMAIL'' \<Longrightarrow>
     process_voice_command e (Dict a) command s = handle_compose_intent a (after_understood a s)"
  by (simp add: process_voice_command_def handle_intent_def after_understood_def Let_def)

lemma after_understood_fields:
  "ctx_recipient (current_context (after_understood a s)) = ctx_recipient (current_context s)"
  "ctx_subject (current_context (after_understood a s)) = ctx_subject (current_context s)"
  "partial_body (current_context (after_understood a s)) = partial_body (current_context s)"
  by (simp_all add: after_understood_def ui_defs Let_def)

lemma latest_alt:
  "latest f as =
     (if filter (sets_field f) as = [] then None
      else dict_get (f (last (filter (sets_field f) as))))"
  by (simp add: latest_def split: list.splits)

lemma latest_snoc:
  "latest f (as @ [a]) = (if sets_field f a then dict_get (f a) else latest f as)"
  by (simp add: latest_alt)

lemma latest_Nil: "latest f [] = None"
  by (simp add: latest_def)


lemma compose_step_fields:
  assumes "compose_turn ev"
  shows "ctx_recipient (current_context (step s ev)) =
           (case latest a_recipient (analysis_of ev) of None \<Rightarrow> ctx_recipient (current_context s) | Some v \<Rightarrow> Some v) \<and>
         ctx_subject (current_context (step s ev)) =
           (case latest a_subject (analysis_of ev) of None \<Rightarrow> ctx_subject (current_context s) | Some v \<Rightarrow> Some v) \<and>
         partial_body (current_context (step s ev)) =
           (case latest a_body (analysis_of ev) of None \<Rightarrow> partial_body (current_context s) | Some v \<Rightarrow> Some v)"
proof -
  from assms obtain e a command where ev: "ev = Utterance e (Dict a) command"
    and i: "a_intent a = Val ''COMPOSE_EMAIL''"
    by (cases ev rule: compose_turn.cases) auto
  show ?thesis
    using compose_fields[of a "after_understood a s"] after_understood_fields[of a s]
    by (auto simp add: ev compose_turn_eq[OF i] latest_def sets_field_def split: option.splits)
qed

lemma latest_one: "latest f [a] = (if sets_field f a then dict_get (f a) else None)"
  by (simp add: latest_alt)

lemma sets_field_Some: "sets_field f a \<Longrightarrow> \<exists>v. dict_get (f a) = Some v"
  by (cases "dict_get (f a)") (simp_all add: sets_field_def)

lemma run_latest:
  assumes step: "\<And>s ev. compose_turn ev \<Longrightarrow>
      g (current_context (step s ev)) =
        (case latest f (analysis_of ev) of None \<Rightarrow> g (current_context s) | Some v \<Rightarrow> Some v)"
    and all: "\<forall>ev \<in> set es. compose_turn ev"
  shows "g (current_context (run s es)) =
           (case latest f (concat (map analysis_of es)) of
              None \<Rightarrow> g (current_context s) | Some v \<Rightarrow> Some v)"
  using all
proof (induction es rule: rev_induct)
  case Nil
  then show ?case by (simp add: run_def latest_Nil)
next
  case (snoc ev es)
  then have c: "compose_turn ev" by simp
  from c obtain e a command where ev: "ev = Utterance e (Dict a) command"
    by (cases ev rule: compose_turn.cases) auto
  have r: "run s (es @ [ev]) = step (run s es) ev"
    by (simp add: run_def)
  have as: "concat (map analysis_of (es @ [ev])) = concat (map analysis_of es) @ [a]"
    by (simp add: ev)
  from snoc have IH: "g (current_context (run s es)) =
      (case latest f (concat (map analysis_of es)) of
         None \<Rightarrow> g (current_context s) | Some v \<Rightarrow> Some v)"
    by simp
  have st: "g (current_context (step (run s es) ev)) =
      (case latest f [a] of None \<Rightarrow> g (current_context (run s es)) | Some v \<Rightarrow> Some v)"
    using step[OF c, of "run s es"] by (simp add: ev)
  show ?case
  proof (cases "sets_field f a")
    case True
    with sets_field_Some[of f a] obtain v where "dict_get (f a) = Some v" by blast
    with True show ?thesis
      unfolding r as st by (simp add: latest_snoc latest_one)
  next
    case False
    then show ?thesis
      unfolding r as st by (simp add: latest_snoc latest_one IH)
  qed
qed

lemma compose_run_fields:
  assumes "\<forall>ev \<in> set es. compose_turn ev"
  shows "ctx_recipient (current_context (run s es)) =
           (case latest a_recipient (concat (map analysis_of es)) of None \<Rightarrow> ctx_recipient (current_context s) | Some v \<Rightarrow> Some v)"
    and "ctx_subject (current_context (run s es)) =
           (case latest a_subject (concat (map analysis_of es)) of None \<Rightarrow> ctx_subject (current_context s) | Some v \<Rightarrow> Some v)"
    and "partial_body (current_context (run s es)) =
           (case latest a_body (concat (map analysis_of es)) of None \<Rightarrow> partial_body (current_context s) | Some v \<Rightarrow> Some v)"
  using compose_step_fields assms
  by (simp_all add: run_latest)

lemma compose_form:
  "recipient_var (handle_compose_intent a s) =
     (if sets_field a_recipient a
      then (case contacts s (py_lower (case_option [] id (dict_get (a_recipient a)))) of
              None \<Rightarrow> case_option [] id (dict_get (a_recipient a))
            | Some email \<Rightarrow> email)
      else recipient_var s)"
  "subject_var (handle_compose_intent a s) =
     (if sets_field a_subject a then case_option [] id (dict_get (a_subject a)) else subject_var s)"
  "message_text (handle_compose_intent a s) =
     (if sets_field a_body a then case_option [] id (dict_get (a_body a)) else message_text s)"
  "contacts (handle_compose_intent a s) = contacts s"
  by (simp_all add: handle_compose_intent_def provide_next_step_guidance_def sets_field_def
        ui_defs Let_def split: option.splits)

lemma after_understood_form:
  "recipient_var (after_understood a s) = recipient_var s"
  "subject_var (after_understood a s) = subject_var s"
  "message_text (after_understood a s) = message_text s"
  "contacts (after_understood a s) = contacts s"
  "in_conversation (current_context (after_understood a s)) = True"
  "last_intent (current_context (after_understood a s)) = dict_get (a_intent a)"
  by (simp_all add: after_understood_def ui_defs Let_def)

lemma compose_turn_idem:
  assumes "compose_turn ev"
  shows "draft_of (step (step s ev) ev) = draft_of (step s ev)"
proof -
  from assms obtain e a command where ev: "ev = Utterance e (Dict a) command"
    and i: "a_intent a = Val ''COMPOSE_EMAIL''"
    by (cases ev rule: compose_turn.cases) auto
  let ?s1 = "handle_compose_intent a (after_understood a s)"
  let ?s2 = "handle_compose_intent a (after_understood a ?s1)"
  have "current_context ?s2 = current_context ?s1"
    by (rule conversation.equality)
       (simp_all add: compose_fields after_understood_fields after_understood_form)
  moreover have "recipient_var ?s2 = recipient_var ?s1" "subject_var ?s2 = subject_var ?s1"
    "message_text ?s2 = message_text ?s1"
    by (simp_all add: compose_form after_understood_form)
  ultimately show ?thesis
    by (simp add: ev compose_turn_eq[OF i] draft_of_def)
qed

text \<open>
  C6. After any sequence of turns with COMPOSE_EMAIL analyses, taken from the initial
  state, each of recipient, subject and body of the context holds the value most recently
  set by an analysis of the sequence, and is unset when no analysis set it (an analysis
  sets a field when it holds a non-empty string for it). Taking the last turn once more
  changes neither the context nor the form.
\<close>

theorem compose_sequence_latest:
  assumes "\<forall>ev \<in> set es. compose_turn ev"
  shows "ctx_recipient (current_context (run (init_application_state cs) es)) =
           latest a_recipient (concat (map analysis_of es)) \<and>
         ctx_subject (current_context (run (init_application_state cs) es)) =
           latest a_subject (concat (map analysis_of es)) \<and>
         partial_body (current_context (run (init_application_state cs) es)) =
           latest a_body (concat (map analysis_of es)) \<and>
         (es \<noteq> [] \<longrightarrow>
            draft_of (run (init_application_state cs) (es @ [last es])) =
            draft_of (run (init_application_state cs) es))"
proof -
  have fields: "ctx_recipient (current_context (run (init_application_state cs) es)) =
           latest a_recipient (concat (map analysis_of es)) \<and>
         ctx_subject (current_context (run (init_application_state cs) es)) =
           latest a_subject (concat (map analysis_of es)) \<and>
         partial_body (current_context (run (init_application_state cs) es)) =
           latest a_body (concat (map analysis_of es))"
    using compose_run_fields[OF assms, of "init_application_state cs"]
    by (simp add: init_application_state_def empty_context_def split: option.splits)
  have idem: "draft_of (run (init_application_state cs) (es @ [last es])) =
            draft_of (run (init_application_state cs) es)" if ne: "es \<noteq> []"
  proof -
    from ne obtain es' ev where es: "es = es' @ [ev]"
      by (cases es rule: rev_cases) auto
    with assms have "compose_turn ev" by simp
    from compose_turn_idem[OF this, of "run (init_application_state cs) es'"]
    show ?thesis by (simp add: es run_def)
  qed
  from fields idem show ?thesis by blast
qed

theorem compose_sequence_latest_witness:
  "ctx_recipient (current_context (run (init_application_state Map.empty)
      [Utterance env_delivered (Dict compose_bob) ''email bob'',
       Utterance env_delivered (Dict compose_lunch) ''about lunch''])) = Some ''bob@example.com'' \<and>
   ctx_subject (current_context (run (init_application_state Map.empty)
      [Utterance env_delivered (Dict compose_bob) ''email bob'',
       Utterance env_delivered (Dict compose_lunch) ''about lunch''])) = Some ''Lunch'' \<and>
   draft_of (run (init_application_state Map.empty)
      [Utterance env_delivered (Dict compose_bob) ''email bob'',
       Utterance env_delivered (Dict compose_lunch) ''about lunch'',
       Utterance env_delivered (Dict compose_lunch) ''about lunch'']) =
   draft_of (run (init_application_state Map.empty)
      [Utterance env_delivered (Dict compose_bob) ''email bob'',
       Utterance env_delivered (Dict compose_lunch) ''about lunch''])"
proof -
  have h: "\<forall>ev \<in> set [Utterance env_delivered (Dict compose_bob) ''email bob'',
       Utterance env_delivered (Dict compose_lunch) ''about lunch'']. compose_turn ev"
    by (simp add: compose_bob_def compose_lunch_def analysis_of_intent_def)
  from compose_sequence_latest [OF h, of Map.empty] show ?thesis
    by (simp add: latest_alt sets_field_def compose_bob_def compose_lunch_def analysis_of_intent_def)
qed

section \<open>The fallback on send and email\<close>

lemma split_from_first:
  "split_from c sep acc s =
     (case after_first c sep s of
        None \<Rightarrow> [rev acc @ s]
      | Some rest \<Rightarrow> (rev acc @ up_to_first c sep s) # split_from c sep [] rest)"
  by (induction s arbitrary: acc) (auto split: option.splits)

lemma split_from_nonempty: "split_from c sep acc s \<noteq> []"
  by (simp add: split_from_first split: option.splits)

lemma split_from_hd: "hd (split_from c sep [] s) = up_to_first c sep s"
proof -
  have "after_first c sep s = None \<Longrightarrow> up_to_first c sep s = s"
    by (induction s) (simp_all split: if_splits)
  then show ?thesis
    by (simp add: split_from_first split: option.splits)
qed

lemma up_to_first_space: "up_to_first (CHR '' '') [] t = takeWhile (\<lambda>c. c \<noteq> CHR '' '') t"
  by (induction t) (simp_all add: startswith_def)

lemma split_to:
  "py_split s ''to'' =
     Inr (case after_first (CHR ''t'') ''o'' s of
            None \<Rightarrow> [s]
          | Some rest \<Rightarrow> up_to_first (CHR ''t'') ''o'' s # split_from (CHR ''t'') ''o'' [] rest)"
  by (simp add: py_split_def split_from_first[of _ _ "[]"] split: option.splits)

lemma first_token:
  "py_split t '' '' = Inr (takeWhile (\<lambda>c. c \<noteq> CHR '' '') t # tl (split_from (CHR '' '') [] [] t))"
proof -
  have "split_from (CHR '' '') [] [] t = hd (split_from (CHR '' '') [] [] t) # tl (split_from (CHR '' '') [] [] t)"
    using split_from_nonempty[of "CHR '' ''" "[]" "[]" t] by simp
  then show ?thesis
    by (simp add: py_split_def split_from_hd up_to_first_space)
qed

text \<open>
  What the fallback does on an utterance whose lower-cased text contains \<open>send\<close> and
  \<open>email\<close>: it raises nothing and sends nothing; when the letters \<open>to\<close> occur in the
  text, the recipient field becomes the text between their first and their next occurrence,
  stripped and cut at its first space, and when they do not occur nothing changes.
\<close>

lemma fallback_send_email_effect:
  assumes "contains (py_lower command) ''send''" and "contains (py_lower command) ''email''"
  shows "handle_command_fallback e command s =
     (None,
      case after_first (CHR ''t'') ''o'' (py_lower command) of
        None \<Rightarrow> s
      | Some rest \<Rightarrow>
          speak ''I need more details for your email''
            (set_status ''I need more details''
               (log (''Manually detected recipient: '' @
                      takeWhile (\<lambda>c. c \<noteq> CHR '' '') (py_strip (up_to_first (CHR ''t'') ''o'' rest)))
                  (s\<lparr>recipient_var :=
                       takeWhile (\<lambda>c. c \<noteq> CHR '' '') (py_strip (up_to_first (CHR ''t'') ''o'' rest))\<rparr>))))"
proof (cases "after_first (CHR ''t'') ''o'' (py_lower command)")
  case None
  with assms show ?thesis
    by (simp add: handle_command_fallback_def split_to Let_def)
next
  case (Some rest)
  have ne: "split_from (CHR ''t'') ''o'' [] rest \<noteq> []" by (rule split_from_nonempty)
  then have len: "length (up_to_first (CHR ''t'') ''o'' (py_lower command) # split_from (CHR ''t'') ''o'' [] rest) > 1"
    by (cases "split_from (CHR ''t'') ''o'' [] rest") simp_all
  have nth: "(up_to_first (CHR ''t'') ''o'' (py_lower command) # split_from (CHR ''t'') ''o'' [] rest) ! 1 =
      up_to_first (CHR ''t'') ''o'' rest"
    using ne split_from_hd[of "CHR ''t''" "''o''" rest] by (simp add: hd_conv_nth)
  from assms Some len nth show ?thesis
    by (simp add: handle_command_fallback_def split_to first_token Let_def del: One_nat_def)
qed

text \<open>
  On \<open>send an email to sarah about the meeting\<close> the recipient is \<open>sarah\<close>, the user is
  told that more details are needed, and nothing is sent.
\<close>

lemma fallback_sarah:
  "handle_command_fallback env_delivered ''send an email to sarah about the meeting'' state_bob =
     (None,
      speak ''I need more details for your email''
        (set_status ''I need more details''
           (log ''Manually detected recipient: sarah'' (state_bob\<lparr>recipient_var := ''sarah''\<rparr>))))"
proof -
  have s: "contains (py_lower ''send an email to sarah about the meeting'') ''send''"
    by (simp add: py_lower_def lower_char_def startswith_def)
  have m: "contains (py_lower ''send an email to sarah about the meeting'') ''email''"
    by (simp add: py_lower_def lower_char_def startswith_def)
  from fallback_send_email_effect [OF s m, of env_delivered state_bob] show ?thesis
    by (simp add: py_lower_def lower_char_def startswith_def py_strip_def isspace_def)
qed

text \<open>
  C4. The fallback cuts the utterance at the letters \<open>to\<close> wherever they stand, so the
  recipient is not the token after the word \<open>to\<close> when the letters occur inside a word.
  On \<open>send email today to bob\<close> the token after the word \<open>to\<close> is \<open>bob\<close> and the
  fallback takes \<open>day\<close>; on \<open>send an email to tom\<close> the token is \<open>tom\<close> and the
  fallback takes the empty string. Neither utterance triggers a send.
\<close>

theorem fallback_recipient_inside_word:
  "token_after ''to'' (tokens_from [] (py_lower ''send email today to bob'')) = Some ''bob'' \<and>
   recipient_var (snd (handle_command_fallback env_delivered ''send email today to bob''
       (init_application_state Map.empty))) = ''day'' \<and>
   token_after ''to'' (tokens_from [] (py_lower ''send an email to tom'')) = Some ''tom'' \<and>
   recipient_var (snd (handle_command_fallback env_delivered ''send an email to tom''
       (init_application_state Map.empty))) = [] \<and>
   send_calls (snd (handle_command_fallback env_delivered ''send email today to bob''
       (init_application_state Map.empty))) = [] \<and>
   send_calls (snd (handle_command_fallback env_delivered ''send an email to tom''
       (init_application_state Map.empty))) = []"
  by (simp add: eval_defs ui_defs)

end
